theory Spec2Isabelle
  imports Main
begin

section \<open>The DeepInfra provider factory\<close>

text \<open>
  A shallow embedding of \<^verbatim>\<open>packages/deepinfra/src/deepinfra-provider.ts\<close>.
  The factory \<^verbatim>\<open>createDeepInfra\<close> closes over its options and returns a callable
  object with six named methods; each method instantiates one model class with a
  configuration object.  Closures become functions that take the captured options as
  their first argument, object literals become records, an optional key becomes an
  \<open>option\<close> (\<open>None\<close> for a key that is absent or \<^verbatim>\<open>undefined\<close>), and the process
  environment that the header resolver reads when it is called is an explicit argument
  of the resolver.
\<close>

subsection \<open>Data\<close>

type_synonym environment = "string \<rightharpoonup> string"

type_synonym header_map = "string \<rightharpoonup> string"

text \<open>A per-model settings object: a mapping of setting names to values.\<close>

type_synonym 'v model_settings = "string \<rightharpoonup> 'v"

text \<open>
  Modelled from the spec: the error of the API-key loader of the utilities package, ``a
  descriptive error''; it carries the description that the loader was given.
\<close>

datatype error = LoadAPIKeyError string

text \<open>The interface \<^verbatim>\<open>DeepInfraProviderSettings\<close>: four optional keys.\<close>

record 'f DeepInfraProviderSettings =
  apiKey :: "string option"
  baseURL :: "string option"
  headers :: "header_map option"
  fetch :: "'f option"

text \<open>
  The configuration objects handed to the model constructors.  The first four fields are
  the local interface \<^verbatim>\<open>CommonModelConfig\<close>; the last two are the keys that the
  chat and the image object literals add.  A key that an object literal does not define
  is \<open>None\<close>.  The header resolver is a thunk in the source; the environment it reads
  when it runs is its argument here.
\<close>

record 'f ModelConfig =
  provider :: string
  url :: "(string \<Rightarrow> string) option"
  headers :: "environment \<Rightarrow> error + header_map"
  fetch :: "'f option"
  defaultObjectGenerationMode :: "string option"
  baseURL :: "string option"

datatype model_class =
    OpenAICompatibleChatLanguageModel
  | OpenAICompatibleCompletionLanguageModel
  | OpenAICompatibleEmbeddingModel
  | DeepInfraImageModel

text \<open>
  Modelled from the spec: the constructors of the four model classes, which are not part
  of this file (three come from the SDK, \<^verbatim>\<open>DeepInfraImageModel\<close> from a sibling
  module).  The spec treats the instances as opaque objects built from
  \<^verbatim>\<open>(modelId, settings, config)\<close>, so an instance is the record of its class and of
  the three arguments its constructor received.  The second argument is a value that
  may be \<^verbatim>\<open>undefined\<close> (\<open>None\<close>) or a settings object.
\<close>

record ('v, 'f) model_instance =
  model_class :: model_class
  modelId :: string
  settings :: "'v model_settings option"
  config :: "'f ModelConfig"

definition new :: "model_class \<Rightarrow> string \<Rightarrow> 'v model_settings option \<Rightarrow> 'f ModelConfig
    \<Rightarrow> ('v, 'f) model_instance" where
  "new c mid s cfg = \<lparr>model_class = c, modelId = mid, settings = s, config = cfg\<rparr>"

text \<open>The interface \<^verbatim>\<open>DeepInfraProvider\<close>: the call signature and the six methods.\<close>

record ('v, 'f) DeepInfraProvider =
  call :: "string \<Rightarrow> 'v model_settings option \<Rightarrow> ('v, 'f) model_instance"
  completionModel :: "string \<Rightarrow> 'v model_settings option \<Rightarrow> ('v, 'f) model_instance"
  chatModel :: "string \<Rightarrow> 'v model_settings option \<Rightarrow> ('v, 'f) model_instance"
  image' :: "string \<Rightarrow> 'v model_settings option \<Rightarrow> ('v, 'f) model_instance"
  imageModel :: "string \<Rightarrow> 'v model_settings option \<Rightarrow> ('v, 'f) model_instance"
  languageModel :: "string \<Rightarrow> 'v model_settings option \<Rightarrow> ('v, 'f) model_instance"
  textEmbeddingModel :: "string \<Rightarrow> 'v model_settings option \<Rightarrow> ('v, 'f) model_instance"

subsection \<open>Helpers imported from the utilities package\<close>

text \<open>
  Modelled from the spec: \<^verbatim>\<open>withoutTrailingSlash\<close>, imported from the utilities
  package.  The spec: ``trailing slash stripped if present''.
\<close>

definition withoutTrailingSlash :: "string \<Rightarrow> string" where
  "withoutTrailingSlash u = (if u \<noteq> [] \<and> last u = CHR ''/'' then butlast u else u)"

text \<open>
  Modelled from the spec: \<^verbatim>\<open>loadApiKey\<close>, imported from the utilities package.
  The spec: ``if absent, resolution falls back to an environment-style lookup; if that
  also fails, the resulting error is surfaced'' as ``a descriptive error''.
\<close>

definition loadApiKey :: "string option \<Rightarrow> string \<Rightarrow> string \<Rightarrow> environment \<Rightarrow> error + string" where
  "loadApiKey key environmentVariableName description env =
     (case key of
        Some k \<Rightarrow> Inr k
      | None \<Rightarrow>
          (case env environmentVariableName of
             Some k \<Rightarrow> Inr k
           | None \<Rightarrow> Inl (LoadAPIKeyError description)))"

subsection \<open>The factory\<close>

text \<open>The empty object literal \<^verbatim>\<open>{}\<close> as a settings object of the factory.\<close>

definition empty_options :: "'f DeepInfraProviderSettings" where
  "empty_options = \<lparr>apiKey = None, baseURL = None,
     DeepInfraProviderSettings.headers = None, DeepInfraProviderSettings.fetch = None\<rparr>"

text \<open>The local constant \<^verbatim>\<open>baseURL\<close> of the factory (lines 116 to 118).\<close>

definition resolvedBaseURL :: "'f DeepInfraProviderSettings \<Rightarrow> string" where
  "resolvedBaseURL options =
     withoutTrailingSlash
       (case DeepInfraProviderSettings.baseURL options of
          None \<Rightarrow> ''https://api.deepinfra.com/v1''
        | Some b \<Rightarrow> b)"

text \<open>Spreading an optional object into an object literal: \<^verbatim>\<open>...options.headers\<close>.\<close>

definition spread :: "header_map option \<Rightarrow> header_map" where
  "spread h = (case h of None \<Rightarrow> Map.empty | Some m \<Rightarrow> m)"

definition getHeaders :: "'f DeepInfraProviderSettings \<Rightarrow> environment \<Rightarrow> error + header_map" where
  "getHeaders options env =
     (case loadApiKey (apiKey options) ''DEEPINFRA_API_KEY'' ''DeepInfra's API key'' env of
        Inl e \<Rightarrow> Inl e
      | Inr k \<Rightarrow>
          Inr ([''Authorization'' \<mapsto> ''Bearer '' @ k]
                 ++ spread (DeepInfraProviderSettings.headers options)))"

definition getCommonModelConfig :: "'f DeepInfraProviderSettings \<Rightarrow> string \<Rightarrow> 'f ModelConfig" where
  "getCommonModelConfig options modelType =
     \<lparr>provider = ''deepinfra.'' @ modelType,
      url = Some (\<lambda>path. resolvedBaseURL options @ ''/openai'' @ path),
      headers = getHeaders options,
      fetch = DeepInfraProviderSettings.fetch options,
      defaultObjectGenerationMode = None,
      baseURL = None\<rparr>"

text \<open>The default of an omitted or undefined parameter: \<^verbatim>\<open>settings = {}\<close>.\<close>

definition default_settings :: "'v model_settings option \<Rightarrow> 'v model_settings option" where
  "default_settings s = (case s of None \<Rightarrow> Some Map.empty | Some x \<Rightarrow> Some x)"

definition createChatModel :: "'f DeepInfraProviderSettings \<Rightarrow> string
    \<Rightarrow> 'v model_settings option \<Rightarrow> ('v, 'f) model_instance" where
  "createChatModel options mid s =
     new OpenAICompatibleChatLanguageModel mid (default_settings s)
       ((getCommonModelConfig options ''chat'')
          \<lparr>defaultObjectGenerationMode := Some ''json''\<rparr>)"

definition createCompletionModel :: "'f DeepInfraProviderSettings \<Rightarrow> string
    \<Rightarrow> 'v model_settings option \<Rightarrow> ('v, 'f) model_instance" where
  "createCompletionModel options mid s =
     new OpenAICompatibleCompletionLanguageModel mid (default_settings s)
       (getCommonModelConfig options ''completion'')"

definition createTextEmbeddingModel :: "'f DeepInfraProviderSettings \<Rightarrow> string
    \<Rightarrow> 'v model_settings option \<Rightarrow> ('v, 'f) model_instance" where
  "createTextEmbeddingModel options mid s =
     new OpenAICompatibleEmbeddingModel mid (default_settings s)
       (getCommonModelConfig options ''embedding'')"

definition createImageModel :: "'f DeepInfraProviderSettings \<Rightarrow> string
    \<Rightarrow> 'v model_settings option \<Rightarrow> ('v, 'f) model_instance" where
  "createImageModel options mid s =
     new DeepInfraImageModel mid (default_settings s)
       ((getCommonModelConfig options ''image'')
          \<lparr>baseURL :=
             Some (if resolvedBaseURL options \<noteq> []
                   then resolvedBaseURL options @ ''/inference''
                   else ''https://api.deepinfra.com/v1/inference'')\<rparr>)"

text \<open>The default of an omitted parameter: \<^verbatim>\<open>options = {}\<close>.\<close>

definition default_options :: "'f DeepInfraProviderSettings option \<Rightarrow> 'f DeepInfraProviderSettings" where
  "default_options opt = (case opt of None \<Rightarrow> empty_options | Some x \<Rightarrow> x)"

text \<open>
  The factory.  Its parameter has the default \<^verbatim>\<open>options = {}\<close>; the callable itself
  is the field \<open>call\<close>, the arrow function of lines 183 to 186.
\<close>

definition createDeepInfra :: "'f DeepInfraProviderSettings option \<Rightarrow> ('v, 'f) DeepInfraProvider" where
  "createDeepInfra opt =
     (let options = default_options opt in
      \<lparr>call = (\<lambda>mid s. createChatModel options mid s),
       completionModel = createCompletionModel options,
       chatModel = createChatModel options,
       image' = createImageModel options,
       imageModel = createImageModel options,
       languageModel = createChatModel options,
       textEmbeddingModel = createTextEmbeddingModel options\<rparr>)"

text \<open>The exported default instance: \<^verbatim>\<open>createDeepInfra()\<close>.\<close>

definition deepinfra :: "('v, 'f) DeepInfraProvider" where
  "deepinfra = createDeepInfra None"

subsection \<open>Vocabulary of the properties\<close>

text \<open>
  Every way of obtaining a model instance from a provider with one pair of arguments:
  the direct call and the six methods, in the order of the interface.
\<close>

definition instances :: "('v, 'f) DeepInfraProvider \<Rightarrow> string \<Rightarrow> 'v model_settings option
    \<Rightarrow> ('v, 'f) model_instance list" where
  "instances p mid s =
     [call p mid s, chatModel p mid s, image' p mid s, imageModel p mid s,
      languageModel p mid s, completionModel p mid s, textEmbeddingModel p mid s]"

section \<open>Properties\<close>

lemmas factory_defs = createDeepInfra_def createChatModel_def createCompletionModel_def
  createTextEmbeddingModel_def createImageModel_def new_def getCommonModelConfig_def

subsection \<open>Auxiliary facts\<close>

lemma getHeaders_cases:
  "getHeaders options env =
     (case apiKey options of
        Some k \<Rightarrow> Inr ([''Authorization'' \<mapsto> ''Bearer '' @ k]
                        ++ spread (DeepInfraProviderSettings.headers options))
      | None \<Rightarrow>
          (case env ''DEEPINFRA_API_KEY'' of
             Some k \<Rightarrow> Inr ([''Authorization'' \<mapsto> ''Bearer '' @ k]
                             ++ spread (DeepInfraProviderSettings.headers options))
           | None \<Rightarrow> Inl (LoadAPIKeyError ''DeepInfra's API key'')))"
  by (simp add: getHeaders_def loadApiKey_def split: option.splits)

lemma instances_common:
  assumes "m \<in> set (instances (createDeepInfra opt) mid s)"
  shows "ModelConfig.headers (config m) = getHeaders (default_options opt)"
    and "ModelConfig.fetch (config m) = DeepInfraProviderSettings.fetch (default_options opt)"
    and "url (config m) = Some (\<lambda>path. resolvedBaseURL (default_options opt) @ ''/openai'' @ path)"
    and "modelId m = mid"
    and "settings m = default_settings s"
  using assms by (auto simp: instances_def factory_defs Let_def)

lemma withoutTrailingSlash_snoc: "withoutTrailingSlash (b @ ''/'') = b"
  by (simp add: withoutTrailingSlash_def)

lemma withoutTrailingSlash_other:
  "\<not> (\<exists>b'. b = b' @ ''/'') \<Longrightarrow> withoutTrailingSlash b = b"
  unfolding withoutTrailingSlash_def
  by (metis append_butlast_last_id)

lemma resolvedBaseURL_empty_options:
  "resolvedBaseURL empty_options = ''https://api.deepinfra.com/v1''"
  by (simp add: resolvedBaseURL_def empty_options_def withoutTrailingSlash_def)

subsection \<open>The callable and its aliases\<close>

text \<open>
  C1.  Calling the provider object itself gives the same model instance as its method
  \<open>chatModel\<close> on the same arguments, for every model identifier and every settings
  argument, given or omitted: the same class, identifier, settings and configuration
  record, whose provider tag is \<open>deepinfra.chat\<close>.  The method \<open>languageModel\<close> is
  the same operation as \<open>chatModel\<close>, and \<open>image\<close> is the same operation as
  \<open>imageModel\<close>.
\<close>

theorem provider_call_is_chatModel:
  fixes opt :: "'f DeepInfraProviderSettings option"
    and s :: "'v model_settings option"
  shows "call (createDeepInfra opt) mid s = chatModel (createDeepInfra opt) mid s
     \<and> config (call (createDeepInfra opt) mid s) = config (chatModel (createDeepInfra opt) mid s)
     \<and> provider (config (call (createDeepInfra opt) mid s)) = ''deepinfra.chat''
     \<and> provider (config (chatModel (createDeepInfra opt) mid s)) = ''deepinfra.chat''
     \<and> model_class (call (createDeepInfra opt) mid s) = OpenAICompatibleChatLanguageModel
     \<and> languageModel (createDeepInfra opt :: ('v, 'f) DeepInfraProvider)
         = chatModel (createDeepInfra opt)
     \<and> image' (createDeepInfra opt :: ('v, 'f) DeepInfraProvider)
         = imageModel (createDeepInfra opt)"
  by (simp add: factory_defs Let_def)

subsection \<open>Header resolution\<close>

text \<open>
  C2.  Header resolution is lazy.  The header resolver of every model instance obtained
  from a provider is a function of the environment in which it is called: with an
  \<open>apiKey\<close> option it answers with that key; without one it looks
  \<open>DEEPINFRA_API_KEY\<close> up in the environment of that call, and fails with the
  API-key error exactly when the variable is not set there.  The instance itself is
  built by total functions that take no environment, so neither the factory nor a model
  constructor can raise that error: it appears only as a result of the resolver.
\<close>

theorem header_resolution_is_lazy:
  assumes "m \<in> set (instances (createDeepInfra opt) mid s)"
  shows "ModelConfig.headers (config m) env =
     (case apiKey (default_options opt) of
        Some k \<Rightarrow> Inr ([''Authorization'' \<mapsto> ''Bearer '' @ k]
                        ++ spread (DeepInfraProviderSettings.headers (default_options opt)))
      | None \<Rightarrow>
          (case env ''DEEPINFRA_API_KEY'' of
             Some k \<Rightarrow> Inr ([''Authorization'' \<mapsto> ''Bearer '' @ k]
                             ++ spread (DeepInfraProviderSettings.headers (default_options opt)))
           | None \<Rightarrow> Inl (LoadAPIKeyError ''DeepInfra's API key'')))"
  using instances_common(1) [OF assms] by (simp add: getHeaders_cases)

text \<open>
  One completion model of a provider without an \<open>apiKey\<close>: its resolver fails in an
  environment without the variable, and follows the variable from one call to the next.
  An image model of a provider with an \<open>apiKey\<close>: the option wins over the variable.
\<close>

theorem header_resolution_is_lazy_witness:
  "completionModel (createDeepInfra None :: (string, unit) DeepInfraProvider) ''m'' None
      \<in> set (instances (createDeepInfra None) ''m'' None)
   \<and> ModelConfig.headers (config (completionModel
        (createDeepInfra None :: (string, unit) DeepInfraProvider) ''m'' None)) Map.empty
      = Inl (LoadAPIKeyError ''DeepInfra's API key'')
   \<and> ModelConfig.headers (config (completionModel
        (createDeepInfra None :: (string, unit) DeepInfraProvider) ''m'' None))
        [''DEEPINFRA_API_KEY'' \<mapsto> ''k1'']
      = Inr [''Authorization'' \<mapsto> ''Bearer k1'']
   \<and> ModelConfig.headers (config (completionModel
        (createDeepInfra None :: (string, unit) DeepInfraProvider) ''m'' None))
        [''DEEPINFRA_API_KEY'' \<mapsto> ''k2'']
      = Inr [''Authorization'' \<mapsto> ''Bearer k2'']
   \<and> ModelConfig.headers (config (image'
        (createDeepInfra (Some ((empty_options :: unit DeepInfraProviderSettings)
          \<lparr>apiKey := Some ''k0''\<rparr>)) :: (string, unit) DeepInfraProvider) ''m'' None))
        [''DEEPINFRA_API_KEY'' \<mapsto> ''k1'']
      = Inr [''Authorization'' \<mapsto> ''Bearer k0'']"
proof -
  let ?p = "createDeepInfra None :: (string, unit) DeepInfraProvider"
  let ?q = "createDeepInfra (Some ((empty_options :: unit DeepInfraProviderSettings)
          \<lparr>apiKey := Some ''k0''\<rparr>)) :: (string, unit) DeepInfraProvider"
  have h: "completionModel ?p ''m'' None \<in> set (instances ?p ''m'' None)"
    and i: "image' ?q ''m'' None \<in> set (instances ?q ''m'' None)"
    by (simp_all add: instances_def)
  show ?thesis
    using h header_resolution_is_lazy [OF h, of Map.empty]
      header_resolution_is_lazy [OF h, of "[''DEEPINFRA_API_KEY'' \<mapsto> ''k1'']"]
      header_resolution_is_lazy [OF h, of "[''DEEPINFRA_API_KEY'' \<mapsto> ''k2'']"]
      header_resolution_is_lazy [OF i, of "[''DEEPINFRA_API_KEY'' \<mapsto> ''k1'']"]
    by (simp add: default_options_def empty_options_def spread_def)
qed

text \<open>
  C3.  Whenever the API key resolves to \<open>k\<close>, the header resolver returns a header
  mapping whose keys are \<open>Authorization\<close> and the keys of the supplied mapping (none if
  no mapping is supplied).  Every supplied entry is in the result with its supplied
  value, so a supplied \<open>Authorization\<close> replaces the computed one; if none is supplied,
  \<open>Authorization\<close> is \<open>Bearer k\<close>.  The key \<open>Authorization\<close> is never absent.
\<close>

theorem getHeaders_merges_supplied_after_authorization:
  assumes "loadApiKey (apiKey options) ''DEEPINFRA_API_KEY'' ''DeepInfra's API key'' env = Inr k"
  shows "\<exists>hs. getHeaders options env = Inr hs
     \<and> dom hs = insert ''Authorization'' (dom (spread (DeepInfraProviderSettings.headers options)))
     \<and> (\<forall>n v. spread (DeepInfraProviderSettings.headers options) n = Some v \<longrightarrow> hs n = Some v)
     \<and> (spread (DeepInfraProviderSettings.headers options) ''Authorization'' = None
          \<longrightarrow> hs ''Authorization'' = Some (''Bearer '' @ k))
     \<and> hs ''Authorization'' \<noteq> None"
  using assms by (auto simp: getHeaders_def map_add_def split: option.splits)

theorem getHeaders_merges_supplied_after_authorization_witness:
  "loadApiKey (apiKey \<lparr>apiKey = Some ''k'', baseURL = None,
        DeepInfraProviderSettings.headers = Some [''X-Org'' \<mapsto> ''o''],
        DeepInfraProviderSettings.fetch = (None :: unit option)\<rparr>)
      ''DEEPINFRA_API_KEY'' ''DeepInfra's API key'' Map.empty = Inr ''k''
   \<and> (\<exists>hs. getHeaders \<lparr>apiKey = Some ''k'', baseURL = None,
        DeepInfraProviderSettings.headers = Some [''X-Org'' \<mapsto> ''o''],
        DeepInfraProviderSettings.fetch = (None :: unit option)\<rparr> Map.empty = Inr hs
      \<and> hs ''Authorization'' = Some ''Bearer k'' \<and> hs ''X-Org'' = Some ''o'')
   \<and> loadApiKey (apiKey \<lparr>apiKey = Some ''k'', baseURL = None,
        DeepInfraProviderSettings.headers = Some [''Authorization'' \<mapsto> ''Basic b''],
        DeepInfraProviderSettings.fetch = (None :: unit option)\<rparr>)
      ''DEEPINFRA_API_KEY'' ''DeepInfra's API key'' Map.empty = Inr ''k''
   \<and> (\<exists>hs. getHeaders \<lparr>apiKey = Some ''k'', baseURL = None,
        DeepInfraProviderSettings.headers = Some [''Authorization'' \<mapsto> ''Basic b''],
        DeepInfraProviderSettings.fetch = (None :: unit option)\<rparr> Map.empty = Inr hs
      \<and> hs ''Authorization'' = Some ''Basic b'')"
proof -
  let ?o1 = "\<lparr>apiKey = Some ''k'', baseURL = None,
        DeepInfraProviderSettings.headers = Some [''X-Org'' \<mapsto> ''o''],
        DeepInfraProviderSettings.fetch = (None :: unit option)\<rparr>"
  let ?o2 = "\<lparr>apiKey = Some ''k'', baseURL = None,
        DeepInfraProviderSettings.headers = Some [''Authorization'' \<mapsto> ''Basic b''],
        DeepInfraProviderSettings.fetch = (None :: unit option)\<rparr>"
  have k1: "loadApiKey (apiKey ?o1) ''DEEPINFRA_API_KEY'' ''DeepInfra's API key'' Map.empty = Inr ''k''"
    by (simp add: loadApiKey_def)
  have k2: "loadApiKey (apiKey ?o2) ''DEEPINFRA_API_KEY'' ''DeepInfra's API key'' Map.empty = Inr ''k''"
    by (simp add: loadApiKey_def)
  show ?thesis
    using getHeaders_merges_supplied_after_authorization [OF k1]
      getHeaders_merges_supplied_after_authorization [OF k2]
    by (simp add: getHeaders_def loadApiKey_def spread_def)
qed

subsection \<open>URL resolution\<close>

text \<open>
  C4.  For every settings record of the factory and every model instance created as a
  chat, completion or embedding model, the URL resolver of its configuration maps a path
  to the base followed by \<open>/openai\<close> and the path.  The base is
  \<open>https://api.deepinfra.com/v1\<close> when \<open>baseURL\<close> is omitted; it is the supplied
  \<open>baseURL\<close> without its final slash when it ends in one, and the supplied
  \<open>baseURL\<close> itself otherwise.
\<close>

theorem url_resolver_openai:
  assumes "m \<in> set [call (createDeepInfra opt) mid s, chatModel (createDeepInfra opt) mid s,
      languageModel (createDeepInfra opt) mid s, completionModel (createDeepInfra opt) mid s,
      textEmbeddingModel (createDeepInfra opt) mid s]"
  shows "(DeepInfraProviderSettings.baseURL (default_options opt) = None \<longrightarrow>
            url (config m) = Some (\<lambda>path. ''https://api.deepinfra.com/v1'' @ ''/openai'' @ path))
     \<and> (\<forall>b. DeepInfraProviderSettings.baseURL (default_options opt) = Some (b @ ''/'') \<longrightarrow>
            url (config m) = Some (\<lambda>path. b @ ''/openai'' @ path))
     \<and> (\<forall>b. DeepInfraProviderSettings.baseURL (default_options opt) = Some b
              \<and> \<not> (\<exists>b'. b = b' @ ''/'') \<longrightarrow>
            url (config m) = Some (\<lambda>path. b @ ''/openai'' @ path))"
proof -
  have "m \<in> set (instances (createDeepInfra opt) mid s)"
    using assms by (auto simp: instances_def)
  then have u: "url (config m)
      = Some (\<lambda>path. resolvedBaseURL (default_options opt) @ ''/openai'' @ path)"
    by (rule instances_common(3))
  show ?thesis
    unfolding u resolvedBaseURL_def
    by (auto simp: withoutTrailingSlash_snoc withoutTrailingSlash_other
        simp del: append.simps append_assoc)
qed

text \<open>
  Three providers, asked through three different methods: no settings at all, the spec's
  example \<open>baseURL = "https://x/y/"\<close>, and the same base URL without the slash.
\<close>

theorem url_resolver_openai_witness:
  "call (createDeepInfra None :: (string, unit) DeepInfraProvider) ''m'' None
     \<in> set [call (createDeepInfra None) ''m'' None, chatModel (createDeepInfra None) ''m'' None,
          languageModel (createDeepInfra None) ''m'' None,
          completionModel (createDeepInfra None) ''m'' None,
          textEmbeddingModel (createDeepInfra None) ''m'' None]
   \<and> DeepInfraProviderSettings.baseURL
        (default_options (None :: unit DeepInfraProviderSettings option)) = None
   \<and> map_option (\<lambda>f. f ''/chat/completions'')
        (url (config (call (createDeepInfra None :: (string, unit) DeepInfraProvider)
          ''m'' None)))
      = Some ''https://api.deepinfra.com/v1/openai/chat/completions''
   \<and> DeepInfraProviderSettings.baseURL
        (default_options (Some ((empty_options :: unit DeepInfraProviderSettings)
          \<lparr>DeepInfraProviderSettings.baseURL := Some (''https://x/y'' @ ''/'')\<rparr>)))
      = Some ''https://x/y/''
   \<and> map_option (\<lambda>f. f ''/completions'')
        (url (config (completionModel
          (createDeepInfra (Some ((empty_options :: unit DeepInfraProviderSettings)
            \<lparr>DeepInfraProviderSettings.baseURL := Some (''https://x/y'' @ ''/'')\<rparr>))
          :: (string, unit) DeepInfraProvider) ''m'' None)))
      = Some ''https://x/y/openai/completions''
   \<and> \<not> (\<exists>b'. ''https://x/y'' = b' @ ''/'')
   \<and> map_option (\<lambda>f. f ''/embeddings'')
        (url (config (textEmbeddingModel
          (createDeepInfra (Some ((empty_options :: unit DeepInfraProviderSettings)
            \<lparr>DeepInfraProviderSettings.baseURL := Some ''https://x/y''\<rparr>))
          :: (string, unit) DeepInfraProvider) ''m'' None)))
      = Some ''https://x/y/openai/embeddings''"
proof -
  let ?o2 = "(empty_options :: unit DeepInfraProviderSettings)
        \<lparr>DeepInfraProviderSettings.baseURL := Some (''https://x/y'' @ ''/'')\<rparr>"
  let ?o3 = "(empty_options :: unit DeepInfraProviderSettings)
        \<lparr>DeepInfraProviderSettings.baseURL := Some ''https://x/y''\<rparr>"
  let ?p1 = "createDeepInfra None :: (string, unit) DeepInfraProvider"
  let ?p2 = "createDeepInfra (Some ?o2) :: (string, unit) DeepInfraProvider"
  let ?p3 = "createDeepInfra (Some ?o3) :: (string, unit) DeepInfraProvider"
  have h1: "call ?p1 ''m'' None \<in> set [call ?p1 ''m'' None, chatModel ?p1 ''m'' None,
      languageModel ?p1 ''m'' None, completionModel ?p1 ''m'' None,
      textEmbeddingModel ?p1 ''m'' None]"
    and h2: "completionModel ?p2 ''m'' None \<in> set [call ?p2 ''m'' None, chatModel ?p2 ''m'' None,
      languageModel ?p2 ''m'' None, completionModel ?p2 ''m'' None,
      textEmbeddingModel ?p2 ''m'' None]"
    and h3: "textEmbeddingModel ?p3 ''m'' None \<in> set [call ?p3 ''m'' None,
      chatModel ?p3 ''m'' None, languageModel ?p3 ''m'' None, completionModel ?p3 ''m'' None,
      textEmbeddingModel ?p3 ''m'' None]"
    by simp_all
  have b1: "DeepInfraProviderSettings.baseURL
      (default_options (None :: unit DeepInfraProviderSettings option)) = None"
    and b2: "DeepInfraProviderSettings.baseURL (default_options (Some ?o2))
      = Some (''https://x/y'' @ ''/'')"
    and b3: "DeepInfraProviderSettings.baseURL (default_options (Some ?o3)) = Some ''https://x/y''"
    by (simp_all add: default_options_def empty_options_def)
  have n3: "\<not> (\<exists>b'. ''https://x/y'' = b' @ ''/'')"
  proof
    assume "\<exists>b'. ''https://x/y'' = b' @ ''/''"
    then obtain b' where "''https://x/y'' = b' @ ''/''" ..
    then have "last ''https://x/y'' = last (b' @ ''/'')" by (rule arg_cong)
    then show False by simp
  qed
  from url_resolver_openai [OF h1] b1
  have "url (config (call ?p1 ''m'' None))
      = Some (\<lambda>path. ''https://api.deepinfra.com/v1'' @ ''/openai'' @ path)"
    by blast
  then have r1: "map_option (\<lambda>f. f ''/chat/completions'') (url (config (call ?p1 ''m'' None)))
      = Some ''https://api.deepinfra.com/v1/openai/chat/completions''"
    by simp
  from url_resolver_openai [OF h2] b2
  have "url (config (completionModel ?p2 ''m'' None))
      = Some (\<lambda>path. ''https://x/y'' @ ''/openai'' @ path)"
    by blast
  then have r2: "map_option (\<lambda>f. f ''/completions'')
      (url (config (completionModel ?p2 ''m'' None))) = Some ''https://x/y/openai/completions''"
    by simp
  from url_resolver_openai [OF h3] b3 n3
  have "url (config (textEmbeddingModel ?p3 ''m'' None))
      = Some (\<lambda>path. ''https://x/y'' @ ''/openai'' @ path)"
    by blast
  then have r3: "map_option (\<lambda>f. f ''/embeddings'')
      (url (config (textEmbeddingModel ?p3 ''m'' None))) = Some ''https://x/y/openai/embeddings''"
    by simp
  from b2 have b2': "DeepInfraProviderSettings.baseURL (default_options (Some ?o2))
      = Some ''https://x/y/''"
    by simp
  from h1 b1 r1 b2' r2 n3 r3 show ?thesis
    by (intro conjI)
qed

text \<open>
  C5.  For \<open>image\<close> and \<open>imageModel\<close>, the \<open>baseURL\<close> field of the configuration
  handed to the image model constructor is the resolved base URL followed by
  \<open>/inference\<close>, and \<open>https://api.deepinfra.com/v1/inference\<close> when the resolved
  base URL is the empty string (the only falsy string).  The field is a string, not a
  function of a path, so no per-call path can change it.
\<close>

theorem image_baseURL_inference:
  assumes "m \<in> set [image' (createDeepInfra opt) mid s, imageModel (createDeepInfra opt) mid s]"
  shows "baseURL (config m) =
     Some (if resolvedBaseURL (default_options opt) = []
           then ''https://api.deepinfra.com/v1/inference''
           else resolvedBaseURL (default_options opt) @ ''/inference'')"
  using assms by (auto simp: factory_defs Let_def)

text \<open>
  Three providers: a base URL with a trailing slash, the base URL \<open>/\<close> (which resolves
  to the empty string), and no base URL.
\<close>

theorem image_baseURL_inference_witness:
  "baseURL (config (image' (createDeepInfra (Some \<lparr>apiKey = None, baseURL = Some ''https://x/y/'',
        DeepInfraProviderSettings.headers = None,
        DeepInfraProviderSettings.fetch = (None :: unit option)\<rparr>)
      :: (string, unit) DeepInfraProvider) ''m'' None)) = Some ''https://x/y/inference''
   \<and> baseURL (config (imageModel (createDeepInfra (Some \<lparr>apiKey = None, baseURL = Some ''/'',
        DeepInfraProviderSettings.headers = None,
        DeepInfraProviderSettings.fetch = (None :: unit option)\<rparr>)
      :: (string, unit) DeepInfraProvider) ''m'' None))
      = Some ''https://api.deepinfra.com/v1/inference''
   \<and> baseURL (config (image' (createDeepInfra None :: (string, unit) DeepInfraProvider)
        ''m'' None)) = Some ''https://api.deepinfra.com/v1/inference''"
proof -
  let ?o1 = "\<lparr>apiKey = None, baseURL = Some ''https://x/y/'',
        DeepInfraProviderSettings.headers = None,
        DeepInfraProviderSettings.fetch = (None :: unit option)\<rparr>"
  let ?o2 = "\<lparr>apiKey = None, baseURL = Some ''/'',
        DeepInfraProviderSettings.headers = None,
        DeepInfraProviderSettings.fetch = (None :: unit option)\<rparr>"
  let ?p1 = "createDeepInfra (Some ?o1) :: (string, unit) DeepInfraProvider"
  let ?p2 = "createDeepInfra (Some ?o2) :: (string, unit) DeepInfraProvider"
  let ?p3 = "createDeepInfra None :: (string, unit) DeepInfraProvider"
  have h1: "image' ?p1 ''m'' None \<in> set [image' ?p1 ''m'' None, imageModel ?p1 ''m'' None]"
    and h2: "imageModel ?p2 ''m'' None \<in> set [image' ?p2 ''m'' None, imageModel ?p2 ''m'' None]"
    and h3: "image' ?p3 ''m'' None \<in> set [image' ?p3 ''m'' None, imageModel ?p3 ''m'' None]"
    by simp_all
  have r1: "resolvedBaseURL (default_options (Some ?o1)) = ''https://x/y''"
    and r2: "resolvedBaseURL (default_options (Some ?o2)) = []"
    and r3: "resolvedBaseURL (default_options None :: unit DeepInfraProviderSettings)
        = ''https://api.deepinfra.com/v1''"
    by (simp_all add: resolvedBaseURL_def default_options_def empty_options_def
        withoutTrailingSlash_def)
  show ?thesis
    using image_baseURL_inference [OF h1] image_baseURL_inference [OF h2]
      image_baseURL_inference [OF h3]
    unfolding r1 r2 r3 by simp
qed

subsection \<open>The configuration records\<close>

text \<open>
  C6 (as amended).  The configuration record handed to the image model constructor
  carries an explicit \<open>baseURL\<close> field, which the chat, completion and embedding
  configurations do not carry, in addition to the common fields: it still contains the
  common \<open>/openai\<close> URL resolver, the same one the chat, completion and embedding
  configurations contain.
\<close>

theorem image_config_keeps_url_resolver:
  assumes "m \<in> set [image' (createDeepInfra opt) mid s, imageModel (createDeepInfra opt) mid s]"
  shows "baseURL (config m) \<noteq> None
     \<and> url (config m) = Some (\<lambda>path. resolvedBaseURL (default_options opt) @ ''/openai'' @ path)
     \<and> url (config m) = url (config (chatModel (createDeepInfra opt) mid s))
     \<and> url (config m) = url (config (completionModel (createDeepInfra opt) mid s))
     \<and> url (config m) = url (config (textEmbeddingModel (createDeepInfra opt) mid s))
     \<and> baseURL (config (chatModel (createDeepInfra opt) mid s)) = None
     \<and> baseURL (config (completionModel (createDeepInfra opt) mid s)) = None
     \<and> baseURL (config (textEmbeddingModel (createDeepInfra opt) mid s)) = None"
  using assms by (auto simp: factory_defs Let_def)

theorem image_config_keeps_url_resolver_witness:
  "image' (createDeepInfra None :: (string, unit) DeepInfraProvider) ''m'' None
     \<in> set [image' (createDeepInfra None) ''m'' None, imageModel (createDeepInfra None) ''m'' None]
   \<and> baseURL (config (image' (createDeepInfra None :: (string, unit) DeepInfraProvider)
        ''m'' None)) = Some ''https://api.deepinfra.com/v1/inference''
   \<and> map_option (\<lambda>f. f ''/chat/completions'')
        (url (config (image' (createDeepInfra None :: (string, unit) DeepInfraProvider)
          ''m'' None)))
      = Some ''https://api.deepinfra.com/v1/openai/chat/completions''"
proof -
  let ?p = "createDeepInfra None :: (string, unit) DeepInfraProvider"
  have h: "image' ?p ''m'' None \<in> set [image' ?p ''m'' None, imageModel ?p ''m'' None]"
    by simp
  have b: "baseURL (config (image' ?p ''m'' None)) = Some ''https://api.deepinfra.com/v1/inference''"
    by (simp add: factory_defs Let_def default_options_def resolvedBaseURL_empty_options)
  from image_config_keeps_url_resolver [OF h]
  have "url (config (image' ?p ''m'' None))
      = Some (\<lambda>path. resolvedBaseURL
          (default_options (None :: unit DeepInfraProviderSettings option)) @ ''/openai'' @ path)"
    by blast
  then have "map_option (\<lambda>f. f ''/chat/completions'') (url (config (image' ?p ''m'' None)))
      = Some ''https://api.deepinfra.com/v1/openai/chat/completions''"
    by (simp add: default_options_def resolvedBaseURL_empty_options)
  with h b show ?thesis by simp
qed

text \<open>
  The claim as first stated, that the image configuration does not contain the URL
  resolver, fails on the default provider: the resolver is there, and it is the one of
  the chat configuration.
\<close>

theorem image_config_without_url_resolver_counterexample:
  "url (config (image' (createDeepInfra None :: (string, unit) DeepInfraProvider) ''m'' None))
      \<noteq> None
   \<and> url (config (image' (createDeepInfra None :: (string, unit) DeepInfraProvider) ''m'' None))
      = url (config (chatModel (createDeepInfra None :: (string, unit) DeepInfraProvider)
          ''m'' None))"
  by (simp add: factory_defs Let_def)

text \<open>
  C7.  The common configuration built for a model type \<open>k\<close> has the provider tag
  \<open>deepinfra.\<close> followed by \<open>k\<close>.  The configuration of every created instance has
  the tag of its kind (\<open>chat\<close>, \<open>completion\<close>, \<open>embedding\<close>, \<open>image\<close>), a URL
  resolver, the one header resolver of the provider, and the \<open>fetch\<close> option exactly as
  the caller gave it to the factory.
\<close>

theorem common_config_of_every_kind:
  fixes opt :: "'f DeepInfraProviderSettings option"
    and s :: "'v model_settings option"
  shows "provider (getCommonModelConfig (default_options opt) k) = ''deepinfra.'' @ k
     \<and> provider (config (call (createDeepInfra opt) mid s)) = ''deepinfra.'' @ ''chat''
     \<and> provider (config (chatModel (createDeepInfra opt) mid s)) = ''deepinfra.'' @ ''chat''
     \<and> provider (config (languageModel (createDeepInfra opt) mid s)) = ''deepinfra.'' @ ''chat''
     \<and> provider (config (completionModel (createDeepInfra opt) mid s))
         = ''deepinfra.'' @ ''completion''
     \<and> provider (config (textEmbeddingModel (createDeepInfra opt) mid s))
         = ''deepinfra.'' @ ''embedding''
     \<and> provider (config (image' (createDeepInfra opt) mid s)) = ''deepinfra.'' @ ''image''
     \<and> provider (config (imageModel (createDeepInfra opt) mid s)) = ''deepinfra.'' @ ''image''
     \<and> (\<forall>m \<in> set (instances (createDeepInfra opt) mid s).
           url (config m)
             = Some (\<lambda>path. resolvedBaseURL (default_options opt) @ ''/openai'' @ path)
           \<and> ModelConfig.headers (config m) = getHeaders (default_options opt)
           \<and> ModelConfig.fetch (config m)
               = DeepInfraProviderSettings.fetch (default_options opt))"
proof -
  have "\<forall>m \<in> set (instances (createDeepInfra opt) mid s).
           url (config m)
             = Some (\<lambda>path. resolvedBaseURL (default_options opt) @ ''/openai'' @ path)
           \<and> ModelConfig.headers (config m) = getHeaders (default_options opt)
           \<and> ModelConfig.fetch (config m)
               = DeepInfraProviderSettings.fetch (default_options opt)"
    using instances_common(1-3) by blast
  moreover have "provider (getCommonModelConfig (default_options opt) k) = ''deepinfra.'' @ k"
    by (simp add: getCommonModelConfig_def)
  moreover have
    "provider (config (call (createDeepInfra opt) mid s)) = ''deepinfra.'' @ ''chat''"
    "provider (config (chatModel (createDeepInfra opt) mid s)) = ''deepinfra.'' @ ''chat''"
    "provider (config (languageModel (createDeepInfra opt) mid s)) = ''deepinfra.'' @ ''chat''"
    "provider (config (completionModel (createDeepInfra opt) mid s))
       = ''deepinfra.'' @ ''completion''"
    "provider (config (textEmbeddingModel (createDeepInfra opt) mid s))
       = ''deepinfra.'' @ ''embedding''"
    "provider (config (image' (createDeepInfra opt) mid s)) = ''deepinfra.'' @ ''image''"
    "provider (config (imageModel (createDeepInfra opt) mid s)) = ''deepinfra.'' @ ''image''"
    by (simp_all add: factory_defs Let_def)
  ultimately show ?thesis by blast
qed

text \<open>
  A provider with a \<open>fetch\<close> override: the embedding model and the image model carry
  that very override, and the tags read \<open>deepinfra.embedding\<close> and \<open>deepinfra.image\<close>.
\<close>

theorem common_config_of_every_kind_witness:
  "provider (config (textEmbeddingModel (createDeepInfra (Some \<lparr>apiKey = Some ''k'',
        baseURL = None, DeepInfraProviderSettings.headers = None,
        DeepInfraProviderSettings.fetch = Some (7 :: nat)\<rparr>)
      :: (string, nat) DeepInfraProvider) ''m'' None)) = ''deepinfra.embedding''
   \<and> provider (config (image' (createDeepInfra (Some \<lparr>apiKey = Some ''k'',
        baseURL = None, DeepInfraProviderSettings.headers = None,
        DeepInfraProviderSettings.fetch = Some (7 :: nat)\<rparr>)
      :: (string, nat) DeepInfraProvider) ''m'' None)) = ''deepinfra.image''
   \<and> ModelConfig.fetch (config (textEmbeddingModel (createDeepInfra (Some \<lparr>apiKey = Some ''k'',
        baseURL = None, DeepInfraProviderSettings.headers = None,
        DeepInfraProviderSettings.fetch = Some (7 :: nat)\<rparr>)
      :: (string, nat) DeepInfraProvider) ''m'' None)) = Some 7
   \<and> ModelConfig.fetch (config (image' (createDeepInfra (Some \<lparr>apiKey = Some ''k'',
        baseURL = None, DeepInfraProviderSettings.headers = None,
        DeepInfraProviderSettings.fetch = Some (7 :: nat)\<rparr>)
      :: (string, nat) DeepInfraProvider) ''m'' None)) = Some 7"
proof -
  let ?o = "\<lparr>apiKey = Some ''k'', baseURL = None, DeepInfraProviderSettings.headers = None,
        DeepInfraProviderSettings.fetch = Some (7 :: nat)\<rparr>"
  let ?p = "createDeepInfra (Some ?o) :: (string, nat) DeepInfraProvider"
  note c = common_config_of_every_kind [of "Some ?o" "''image''" "''m''" "None :: string model_settings option"]
  have e: "textEmbeddingModel ?p ''m'' None \<in> set (instances ?p ''m'' None)"
    and i: "image' ?p ''m'' None \<in> set (instances ?p ''m'' None)"
    by (simp_all add: instances_def)
  from c e have "ModelConfig.fetch (config (textEmbeddingModel ?p ''m'' None))
      = DeepInfraProviderSettings.fetch (default_options (Some ?o))"
    by blast
  moreover from c i have "ModelConfig.fetch (config (image' ?p ''m'' None))
      = DeepInfraProviderSettings.fetch (default_options (Some ?o))"
    by blast
  moreover from c have "provider (config (textEmbeddingModel ?p ''m'' None))
      = ''deepinfra.'' @ ''embedding''"
    and "provider (config (image' ?p ''m'' None)) = ''deepinfra.'' @ ''image''"
    by blast+
  ultimately show ?thesis
    by (simp add: default_options_def)
qed

text \<open>
  C8.  The chat configuration is the common configuration for \<open>chat\<close> with one key
  added, the object-generation mode, fixed to \<open>json\<close>; the completion configuration is
  the common configuration for \<open>completion\<close> itself, with no generation mode and no
  other added key.
\<close>

theorem chat_and_completion_config:
  fixes opt :: "'f DeepInfraProviderSettings option"
    and s :: "'v model_settings option"
  shows "config (chatModel (createDeepInfra opt) mid s)
       = (getCommonModelConfig (default_options opt) ''chat'')
           \<lparr>defaultObjectGenerationMode := Some ''json''\<rparr>
     \<and> defaultObjectGenerationMode (getCommonModelConfig (default_options opt) ''chat'') = None
     \<and> defaultObjectGenerationMode (config (chatModel (createDeepInfra opt) mid s)) = Some ''json''
     \<and> baseURL (config (chatModel (createDeepInfra opt) mid s)) = None
     \<and> config (completionModel (createDeepInfra opt) mid s)
       = getCommonModelConfig (default_options opt) ''completion''
     \<and> defaultObjectGenerationMode (config (completionModel (createDeepInfra opt) mid s)) = None
     \<and> baseURL (config (completionModel (createDeepInfra opt) mid s)) = None"
  by (simp add: factory_defs Let_def)

subsection \<open>Constructor arguments\<close>

text \<open>
  C9 (as amended).  For every factory-method call, the adapter passes the caller's model
  identifier through unchanged as the first constructor argument, and the caller's
  settings through unchanged as the second when settings are supplied; when the settings
  are omitted, the adapter passes the empty settings object as the second argument.  The
  third argument, the configuration, is the adapter's own.
\<close>

theorem constructor_arguments:
  fixes opt :: "'f DeepInfraProviderSettings option"
    and s :: "'v model_settings option"
  shows "\<forall>m \<in> set (instances (createDeepInfra opt) mid s).
     modelId m = mid
     \<and> settings m = (case s of None \<Rightarrow> Some Map.empty | Some x \<Rightarrow> Some x)"
proof
  fix m :: "('v, 'f) model_instance"
  assume m: "m \<in> set (instances (createDeepInfra opt) mid s)"
  show "modelId m = mid
     \<and> settings m = (case s of None \<Rightarrow> Some Map.empty | Some x \<Rightarrow> Some x)"
    unfolding instances_common(4,5) [OF m] by (simp add: default_settings_def)
qed

theorem constructor_arguments_witness:
  "modelId (completionModel (createDeepInfra None :: (string, unit) DeepInfraProvider)
      ''m'' (Some [''user'' \<mapsto> ''u''])) = ''m''
   \<and> settings (completionModel (createDeepInfra None :: (string, unit) DeepInfraProvider)
      ''m'' (Some [''user'' \<mapsto> ''u''])) = Some [''user'' \<mapsto> ''u'']
   \<and> settings (image' (createDeepInfra None :: (string, unit) DeepInfraProvider)
      ''m'' None) = Some Map.empty"
proof -
  let ?p = "createDeepInfra None :: (string, unit) DeepInfraProvider"
  have c: "completionModel ?p ''m'' (Some [''user'' \<mapsto> ''u''])
      \<in> set (instances ?p ''m'' (Some [''user'' \<mapsto> ''u'']))"
    and i: "image' ?p ''m'' None \<in> set (instances ?p ''m'' None)"
    by (simp_all add: instances_def)
  from constructor_arguments [of None "''m''" "Some [''user'' \<mapsto> ''u'']"] c
  have "modelId (completionModel ?p ''m'' (Some [''user'' \<mapsto> ''u''])) = ''m''
      \<and> settings (completionModel ?p ''m'' (Some [''user'' \<mapsto> ''u'']))
          = (case Some [''user'' \<mapsto> ''u''] of None \<Rightarrow> Some Map.empty | Some x \<Rightarrow> Some x)"
    by blast
  moreover from constructor_arguments [of None "''m''" None] i
  have "settings (image' ?p ''m'' None)
      = (case None of None \<Rightarrow> Some Map.empty | Some x \<Rightarrow> Some x)"
    by blast
  ultimately show ?thesis by simp
qed

text \<open>
  The claim as first stated, that the settings argument always reaches the constructor
  unchanged, fails when the caller omits it: the constructor receives the empty settings
  object, not the omitted argument.
\<close>

theorem settings_verbatim_counterexample:
  "settings (chatModel (createDeepInfra None :: (string, unit) DeepInfraProvider) ''m'' None)
      \<noteq> None
   \<and> map_option dom
        (settings (chatModel (createDeepInfra None :: (string, unit) DeepInfraProvider)
          ''m'' None))
      = Some {}"
  by (simp add: factory_defs Let_def default_settings_def)

subsection \<open>The default instance\<close>

text \<open>
  C10.  The exported constant \<open>deepinfra\<close> is the factory applied to no settings.  Each
  of its model instances resolves URLs against \<open>https://api.deepinfra.com/v1\<close>, has no
  \<open>fetch\<close> override, and has a header resolver that reads \<open>DEEPINFRA_API_KEY\<close> from
  the environment of the call: it yields the single header \<open>Authorization\<close> when the
  variable is set and the API-key error when it is not.  Its image configuration has the
  base URL \<open>https://api.deepinfra.com/v1/inference\<close>.
\<close>

theorem deepinfra_default_instance:
  fixes s :: "'v model_settings option"
  shows "(deepinfra :: ('v, 'f) DeepInfraProvider) = createDeepInfra None
     \<and> (\<forall>m \<in> set (instances (deepinfra :: ('v, 'f) DeepInfraProvider) mid s).
           url (config m) = Some (\<lambda>path. ''https://api.deepinfra.com/v1'' @ ''/openai'' @ path)
           \<and> ModelConfig.fetch (config m) = None
           \<and> ModelConfig.headers (config m) env =
               (case env ''DEEPINFRA_API_KEY'' of
                  Some k \<Rightarrow> Inr [''Authorization'' \<mapsto> ''Bearer '' @ k]
                | None \<Rightarrow> Inl (LoadAPIKeyError ''DeepInfra's API key'')))
     \<and> baseURL (config (image' (deepinfra :: ('v, 'f) DeepInfraProvider) mid s))
         = Some ''https://api.deepinfra.com/v1/inference''
     \<and> baseURL (config (imageModel (deepinfra :: ('v, 'f) DeepInfraProvider) mid s))
         = Some ''https://api.deepinfra.com/v1/inference''"
proof -
  have o: "default_options None = (empty_options :: 'f DeepInfraProviderSettings)"
    by (simp add: default_options_def)
  have h: "getHeaders (empty_options :: 'f DeepInfraProviderSettings) env =
      (case env ''DEEPINFRA_API_KEY'' of
         Some k \<Rightarrow> Inr [''Authorization'' \<mapsto> ''Bearer '' @ k]
       | None \<Rightarrow> Inl (LoadAPIKeyError ''DeepInfra's API key''))"
    by (simp add: getHeaders_cases empty_options_def spread_def split: option.splits)
  have f: "DeepInfraProviderSettings.fetch (empty_options :: 'f DeepInfraProviderSettings) = None"
    by (simp add: empty_options_def)
  have "\<forall>m \<in> set (instances (deepinfra :: ('v, 'f) DeepInfraProvider) mid s).
           url (config m) = Some (\<lambda>path. ''https://api.deepinfra.com/v1'' @ ''/openai'' @ path)
           \<and> ModelConfig.fetch (config m) = None
           \<and> ModelConfig.headers (config m) env =
               (case env ''DEEPINFRA_API_KEY'' of
                  Some k \<Rightarrow> Inr [''Authorization'' \<mapsto> ''Bearer '' @ k]
                | None \<Rightarrow> Inl (LoadAPIKeyError ''DeepInfra's API key''))"
  proof
    fix m :: "('v, 'f) model_instance"
    assume "m \<in> set (instances deepinfra mid s)"
    then have m: "m \<in> set (instances (createDeepInfra None) mid s)"
      by (simp only: deepinfra_def)
    show "url (config m) = Some (\<lambda>path. ''https://api.deepinfra.com/v1'' @ ''/openai'' @ path)
           \<and> ModelConfig.fetch (config m) = None
           \<and> ModelConfig.headers (config m) env =
               (case env ''DEEPINFRA_API_KEY'' of
                  Some k \<Rightarrow> Inr [''Authorization'' \<mapsto> ''Bearer '' @ k]
                | None \<Rightarrow> Inl (LoadAPIKeyError ''DeepInfra's API key''))"
      unfolding instances_common(1-3) [OF m] o f h resolvedBaseURL_empty_options
      by simp
  qed
  moreover have "baseURL (config (image' (deepinfra :: ('v, 'f) DeepInfraProvider) mid s))
         = Some ''https://api.deepinfra.com/v1/inference''"
    and "baseURL (config (imageModel (deepinfra :: ('v, 'f) DeepInfraProvider) mid s))
         = Some ''https://api.deepinfra.com/v1/inference''"
    by (simp_all add: deepinfra_def factory_defs Let_def o resolvedBaseURL_empty_options)
  ultimately show ?thesis
    by (simp only: deepinfra_def simp_thms)
qed

text \<open>
  The chat model of the default instance, asked for its headers in an environment that
  sets the variable and in one that does not.
\<close>

theorem deepinfra_default_instance_witness:
  "chatModel (deepinfra :: (string, unit) DeepInfraProvider) ''m'' None
      \<in> set (instances deepinfra ''m'' None)
   \<and> map_option (\<lambda>f. f ''/embeddings'')
        (url (config (chatModel (deepinfra :: (string, unit) DeepInfraProvider) ''m'' None)))
      = Some ''https://api.deepinfra.com/v1/openai/embeddings''
   \<and> ModelConfig.fetch (config (chatModel (deepinfra :: (string, unit) DeepInfraProvider)
        ''m'' None)) = None
   \<and> ModelConfig.headers (config (chatModel (deepinfra :: (string, unit) DeepInfraProvider)
        ''m'' None)) [''DEEPINFRA_API_KEY'' \<mapsto> ''k1'']
      = Inr [''Authorization'' \<mapsto> ''Bearer k1'']
   \<and> ModelConfig.headers (config (chatModel (deepinfra :: (string, unit) DeepInfraProvider)
        ''m'' None)) Map.empty
      = Inl (LoadAPIKeyError ''DeepInfra's API key'')"
proof -
  let ?m = "chatModel (deepinfra :: (string, unit) DeepInfraProvider) ''m'' None"
  have h: "?m \<in> set (instances deepinfra ''m'' None)"
    by (simp add: instances_def)
  from deepinfra_default_instance [of "''m''" None "[''DEEPINFRA_API_KEY'' \<mapsto> ''k1'']"] h
  have a: "url (config ?m) = Some (\<lambda>path. ''https://api.deepinfra.com/v1'' @ ''/openai'' @ path)
      \<and> ModelConfig.fetch (config ?m) = None
      \<and> ModelConfig.headers (config ?m) [''DEEPINFRA_API_KEY'' \<mapsto> ''k1''] =
         (case [''DEEPINFRA_API_KEY'' \<mapsto> ''k1''] ''DEEPINFRA_API_KEY'' of
            Some k \<Rightarrow> Inr [''Authorization'' \<mapsto> ''Bearer '' @ k]
          | None \<Rightarrow> Inl (LoadAPIKeyError ''DeepInfra's API key''))"
    by blast
  from deepinfra_default_instance [of "''m''" None Map.empty] h
  have b: "ModelConfig.headers (config ?m) Map.empty =
         (case (Map.empty :: environment) ''DEEPINFRA_API_KEY'' of
            Some k \<Rightarrow> Inr [''Authorization'' \<mapsto> ''Bearer '' @ k]
          | None \<Rightarrow> Inl (LoadAPIKeyError ''DeepInfra's API key''))"
    by blast
  from a have "map_option (\<lambda>f. f ''/embeddings'') (url (config ?m))
      = Some ''https://api.deepinfra.com/v1/openai/embeddings''"
    by simp
  with h a b show ?thesis by simp
qed

end
